theory Spec2Isabelle
  imports Complex_Main "HOL-Library.Log_Nat"
begin

section \<open>Python strings\<close>

text \<open>
  A Python \<open>str\<close> is modelled as a \<open>string\<close> (a list of 8-bit characters). The case
  mappings and the whitespace class are Python's on the ASCII range; a character outside
  ASCII is kept as it is by \<open>upper\<close> and \<open>lower\<close> and is not whitespace.
\<close>

definition py_upper :: "string \<Rightarrow> string" where
  "py_upper s =
     map (\<lambda>c. case map_of (zip ''abcdefghijklmnopqrstuvwxyz'' ''ABCDEFGHIJKLMNOPQRSTUVWXYZ'') c of
                 Some u \<Rightarrow> u | None \<Rightarrow> c) s"

definition py_lower :: "string \<Rightarrow> string" where
  "py_lower s =
     map (\<lambda>c. case map_of (zip ''ABCDEFGHIJKLMNOPQRSTUVWXYZ'' ''abcdefghijklmnopqrstuvwxyz'') c of
                 Some l \<Rightarrow> l | None \<Rightarrow> c) s"

text \<open>\<open>str.isspace\<close> on ASCII: tab, line feed, vertical tab, form feed, carriage return,
  the four separators 0x1C..0x1F and the space.\<close>

definition py_isspace :: "char \<Rightarrow> bool" where
  "py_isspace c = ((of_char c :: nat) \<in> {9, 10, 11, 12, 13, 28, 29, 30, 31, 32})"

text \<open>\<open>s.strip()\<close> and \<open>s.strip(chars)\<close>.\<close>

definition strip_where :: "(char \<Rightarrow> bool) \<Rightarrow> string \<Rightarrow> string" where
  "strip_where P s = rev (dropWhile P (rev (dropWhile P s)))"

definition py_strip :: "string \<Rightarrow> string" where
  "py_strip s = strip_where py_isspace s"

definition py_strip_chars :: "string \<Rightarrow> string \<Rightarrow> string" where
  "py_strip_chars chars s = strip_where (\<lambda>c. c \<in> set chars) s"


section \<open>Python floats\<close>

text \<open>
  A Python \<open>float\<close> is an IEEE 754 binary64 value: a finite value (a rational, \<open>Fin 0\<close>
  being the positive zero), the negative zero, the two infinities, or NaN.
\<close>

datatype pyfloat = Fin rat | NegZero | PInf | NInf | NaN

fun is_zero :: "pyfloat \<Rightarrow> bool" where
  "is_zero (Fin q) = (q = 0)"
| "is_zero NegZero = True"
| "is_zero _ = False"

fun is_finite :: "pyfloat \<Rightarrow> bool" where
  "is_finite (Fin q) = True"
| "is_finite NegZero = True"
| "is_finite _ = False"

fun is_neg :: "pyfloat \<Rightarrow> bool" where
  "is_neg (Fin q) = (q < 0)"
| "is_neg NegZero = True"
| "is_neg NInf = True"
| "is_neg _ = False"

fun rat_of :: "pyfloat \<Rightarrow> rat" where
  "rat_of (Fin q) = q"
| "rat_of _ = 0"

definition signed_zero :: "bool \<Rightarrow> pyfloat" where
  "signed_zero neg = (if neg then NegZero else Fin 0)"

definition signed_inf :: "bool \<Rightarrow> pyfloat" where
  "signed_inf neg = (if neg then NInf else PInf)"

definition pow2 :: "int \<Rightarrow> rat" where
  "pow2 e = (if 0 \<le> e then 2 ^ nat e else 1 / 2 ^ nat (- e))"

definition round_half_even :: "rat \<Rightarrow> int" where
  "round_half_even q =
     (let f = \<lfloor>q\<rfloor>; d = q - of_int f
      in if d < 1 / 2 then f else if 1 / 2 < d then f + 1 else if even f then f else f + 1)"

text \<open>
  Rounding of an exact rational to binary64, to nearest with ties to even: 53 bits of
  significand, least exponent \<open>-1074\<close> (subnormals), overflow to an infinity from
  \<open>2 ^ 1024\<close> on, underflow to a zero of the value's sign.
\<close>

definition binary64_round :: "rat \<Rightarrow> pyfloat" where
  "binary64_round q =
     (if q = 0 then Fin 0
      else
        let a = \<bar>q\<bar>;
            k = bitlen (fst (quotient_of a)) - bitlen (snd (quotient_of a));
            e = (if pow2 k \<le> a then k else k - 1);
            x = max (e - 52) (- 1074);
            m = round_half_even (a / pow2 x);
            v = of_int m * pow2 x
        in if pow2 1024 \<le> v then signed_inf (q < 0)
           else if m = 0 then signed_zero (q < 0)
           else Fin (if q < 0 then - v else v))"

text \<open>The result of a product or quotient: an exact zero takes the sign given.\<close>

definition round_signed :: "bool \<Rightarrow> rat \<Rightarrow> pyfloat" where
  "round_signed neg q = (if q = 0 then signed_zero neg else binary64_round q)"

datatype py_exc =
  AttributeError | TypeError | ValueError | KeyError | IndexError
  | OverflowError | ZeroDivisionError

definition fsub :: "pyfloat \<Rightarrow> pyfloat \<Rightarrow> pyfloat" where
  "fsub a b =
     (if a = NaN \<or> b = NaN then NaN
      else if \<not> is_finite a \<and> \<not> is_finite b then (if a = b then NaN else a)
      else if \<not> is_finite a then a
      else if \<not> is_finite b then signed_inf (\<not> is_neg b)
      else if rat_of a - rat_of b = 0 then signed_zero (a = NegZero \<and> b = Fin 0)
      else binary64_round (rat_of a - rat_of b))"

definition fmul :: "pyfloat \<Rightarrow> pyfloat \<Rightarrow> pyfloat" where
  "fmul a b =
     (if a = NaN \<or> b = NaN then NaN
      else if (\<not> is_finite a \<and> is_zero b) \<or> (is_zero a \<and> \<not> is_finite b) then NaN
      else if \<not> is_finite a \<or> \<not> is_finite b then signed_inf (is_neg a \<noteq> is_neg b)
      else round_signed (is_neg a \<noteq> is_neg b) (rat_of a * rat_of b))"

text \<open>Python's \<open>/\<close> on floats raises \<open>ZeroDivisionError\<close> for a zero divisor of either sign.\<close>

definition fdiv :: "pyfloat \<Rightarrow> pyfloat \<Rightarrow> py_exc + pyfloat" where
  "fdiv a b =
     (if is_zero b then Inl ZeroDivisionError
      else if a = NaN \<or> b = NaN then Inr NaN
      else if \<not> is_finite a \<and> \<not> is_finite b then Inr NaN
      else if \<not> is_finite a then Inr (signed_inf (is_neg a \<noteq> is_neg b))
      else if \<not> is_finite b then Inr (signed_zero (is_neg a \<noteq> is_neg b))
      else Inr (round_signed (is_neg a \<noteq> is_neg b) (rat_of a / rat_of b)))"

section \<open>Decoded JSON values and the dynamic operations on them\<close>

text \<open>
  What \<open>r.json()\<close> returns: \<open>None\<close>, a \<open>bool\<close>, an \<open>int\<close>, a \<open>float\<close>, a \<open>str\<close>,
  a \<open>list\<close> or a \<open>dict\<close> with string keys. A dict is an association list, read with
  \<open>map_of\<close>; the records that \<open>normalize_quote\<close> builds are dicts of the same kind.
\<close>

datatype json =
  JNull | JBool bool | JInt int | JFloat pyfloat | JStr string
  | JList "json list" | JDict "(string \<times> json) list"

type_synonym pydict = "(string \<times> json) list"

text \<open>Truth value of an object, as \<open>or\<close> and \<open>if\<close> test it.\<close>

fun truthy :: "json \<Rightarrow> bool" where
  "truthy JNull = False"
| "truthy (JBool b) = b"
| "truthy (JInt n) = (n \<noteq> 0)"
| "truthy (JFloat f) = (\<not> is_zero f)"
| "truthy (JStr s) = (s \<noteq> [])"
| "truthy (JList xs) = (xs \<noteq> [])"
| "truthy (JDict d) = (d \<noteq> [])"

definition py_or :: "json \<Rightarrow> json \<Rightarrow> json" where
  "py_or a b = (if truthy a then a else b)"

text \<open>Sequencing of computations that may raise.\<close>

definition bind_exc :: "py_exc + 'a \<Rightarrow> ('a \<Rightarrow> py_exc + 'b) \<Rightarrow> py_exc + 'b" where
  "bind_exc m f = (case m of Inl e \<Rightarrow> Inl e | Inr x \<Rightarrow> f x)"

text \<open>\<open>obj.get(key, default)\<close>: only a dict has the method.\<close>

fun py_get :: "json \<Rightarrow> string \<Rightarrow> json \<Rightarrow> py_exc + json" where
  "py_get (JDict d) k dflt = Inr (case map_of d k of Some v \<Rightarrow> v | None \<Rightarrow> dflt)"
| "py_get _ k dflt = Inl AttributeError"

text \<open>\<open>obj.strip(chars)\<close>: only a str has the method.\<close>

fun py_strip_method :: "json \<Rightarrow> string \<Rightarrow> py_exc + string" where
  "py_strip_method (JStr s) chars = Inr (py_strip_chars chars s)"
| "py_strip_method _ chars = Inl AttributeError"

text \<open>\<open>obj[0]\<close>.\<close>

fun py_index0 :: "json \<Rightarrow> py_exc + json" where
  "py_index0 (JList []) = Inl IndexError"
| "py_index0 (JList (x # xs)) = Inr x"
| "py_index0 (JDict d) = Inl KeyError"
| "py_index0 (JStr []) = Inl IndexError"
| "py_index0 (JStr (c # cs)) = Inr (JStr [c])"
| "py_index0 _ = Inl TypeError"

subsection \<open>\<open>float(x)\<close>\<close>

definition is_digit :: "char \<Rightarrow> bool" where
  "is_digit c = (c \<in> set ''0123456789'')"

definition digit_val :: "char \<Rightarrow> nat" where
  "digit_val c = (of_char c :: nat) - 48"

definition nat_of_digits :: "string \<Rightarrow> nat" where
  "nat_of_digits ds = foldl (\<lambda>n c. 10 * n + digit_val c) 0 ds"

text \<open>A run of digits in which single underscores may stand between two digits;
  returns the digits and the rest of the text.\<close>

fun digits_tail :: "string \<Rightarrow> string \<times> string" where
  "digits_tail [] = ([], [])"
| "digits_tail (c # cs) =
     (if is_digit c then (case digits_tail cs of (ds, r) \<Rightarrow> (c # ds, r))
      else if c = CHR ''_'' \<and> (case cs of d # _ \<Rightarrow> is_digit d | [] \<Rightarrow> False)
      then digits_tail cs
      else ([], c # cs))"

definition digitpart :: "string \<Rightarrow> string \<times> string" where
  "digitpart s =
     (case s of
        [] \<Rightarrow> ([], [])
      | c # cs \<Rightarrow> if is_digit c then (case digits_tail cs of (ds, r) \<Rightarrow> (c # ds, r)) else ([], s))"

text \<open>The exponent of a decimal literal, after the mantissa: nothing, or \<open>e\<close>, a sign
  and digits up to the end of the text.\<close>

definition parse_exponent :: "string \<Rightarrow> int option" where
  "parse_exponent s =
     (case s of
        [] \<Rightarrow> Some 0
      | c # t \<Rightarrow>
          if c = CHR ''e'' \<or> c = CHR ''E'' then
            (case (case t of
                     x # u \<Rightarrow> if x = CHR ''-'' then (True, u)
                              else if x = CHR ''+'' then (False, u) else (False, t)
                   | [] \<Rightarrow> (False, t)) of
               (neg, u) \<Rightarrow>
                 (case digitpart u of
                    (ds, r) \<Rightarrow>
                      if ds = [] \<or> r \<noteq> [] then None
                      else Some (if neg then - int (nat_of_digits ds) else int (nat_of_digits ds))))
          else None)"

definition pow10 :: "int \<Rightarrow> rat" where
  "pow10 e = (if 0 \<le> e then 10 ^ nat e else 1 / 10 ^ nat (- e))"

text \<open>An unsigned decimal literal: digits, an optional point and digits (at least one
  digit in all), an optional exponent; \<open>None\<close> when the text is not one.\<close>

definition parse_decimal :: "string \<Rightarrow> rat option" where
  "parse_decimal s =
     (case digitpart s of
        (ip, r1) \<Rightarrow>
          (case (case r1 of
                   c # t \<Rightarrow> if c = CHR ''.'' then digitpart t else ([], r1)
                 | [] \<Rightarrow> ([], r1)) of
             (fp, r2) \<Rightarrow>
               if ip = [] \<and> fp = [] then None
               else (case parse_exponent r2 of
                       None \<Rightarrow> None
                     | Some ex \<Rightarrow>
                         Some (of_nat (nat_of_digits (ip @ fp)) * pow10 (ex - int (length fp))))))"

text \<open>\<open>float(s)\<close> for a str: surrounding whitespace is dropped, then a sign and
  \<open>inf\<close>, \<open>infinity\<close> or \<open>nan\<close> in any case, or a decimal literal, correctly rounded;
  anything else is a \<open>ValueError\<close>.\<close>

definition float_of_str :: "string \<Rightarrow> py_exc + pyfloat" where
  "float_of_str s =
     (case (case py_strip s of
              c # t \<Rightarrow> if c = CHR ''-'' then (True, t)
                       else if c = CHR ''+'' then (False, t) else (False, c # t)
            | [] \<Rightarrow> (False, [])) of
        (neg, u) \<Rightarrow>
          if py_lower u = ''inf'' \<or> py_lower u = ''infinity'' then Inr (signed_inf neg)
          else if py_lower u = ''nan'' then Inr NaN
          else (case parse_decimal u of
                  None \<Rightarrow> Inl ValueError
                | Some q \<Rightarrow> Inr (round_signed neg (if neg then - q else q))))"

text \<open>\<open>float(n)\<close> for an int rounds to nearest and raises \<open>OverflowError\<close> beyond the
  range of a float.\<close>

definition float_of_int :: "int \<Rightarrow> py_exc + pyfloat" where
  "float_of_int n =
     (case binary64_round (of_int n) of
        PInf \<Rightarrow> Inl OverflowError
      | NInf \<Rightarrow> Inl OverflowError
      | f \<Rightarrow> Inr f)"

fun py_float :: "json \<Rightarrow> py_exc + pyfloat" where
  "py_float JNull = Inl TypeError"
| "py_float (JBool b) = Inr (if b then Fin 1 else Fin 0)"
| "py_float (JInt n) = float_of_int n"
| "py_float (JFloat f) = Inr f"
| "py_float (JStr s) = float_of_str s"
| "py_float (JList xs) = Inl TypeError"
| "py_float (JDict d) = Inl TypeError"

section \<open>\<open>normalize_quote\<close>\<close>

text \<open>\<open>float(obj.get(key, default) or 0)\<close>, the coercion of a numeric field.\<close>

definition get_float :: "json \<Rightarrow> string \<Rightarrow> json \<Rightarrow> py_exc + pyfloat" where
  "get_float obj k dflt = bind_exc (py_get obj k dflt) (\<lambda>v. py_float (py_or v (JInt 0)))"

text \<open>The five provider branches of the \<open>try\<close> block, each returning the dict it builds
  or the exception it raises. Fields are evaluated in the order of the dict display.\<close>

definition alpha_vantage_quote :: "pydict \<Rightarrow> json \<Rightarrow> py_exc + pydict" where
  "alpha_vantage_quote base raw =
     bind_exc (py_get raw ''Global Quote'' (JDict [])) (\<lambda>gq.
     bind_exc (get_float gq ''05. price'' (JInt 0)) (\<lambda>price.
     bind_exc (py_get gq ''10. change percent'' (JStr ''0%'')) (\<lambda>cp.
     bind_exc (py_strip_method (py_or cp (JStr ''0'')) ''%'') (\<lambda>cps.
     bind_exc (float_of_str cps) (\<lambda>changePercent.
     bind_exc (get_float gq ''02. open'' (JInt 0)) (\<lambda>opn.
     bind_exc (get_float gq ''03. high'' (JInt 0)) (\<lambda>high.
     bind_exc (get_float gq ''04. low'' (JInt 0)) (\<lambda>low.
     bind_exc (get_float gq ''08. previous close'' (JInt 0)) (\<lambda>previousClose.
     bind_exc (py_get gq ''07. latest trading day'' JNull) (\<lambda>timestamp.
       Inr (base @
         [(''price'', JFloat price), (''changePercent'', JFloat changePercent),
          (''open'', JFloat opn), (''high'', JFloat high), (''low'', JFloat low),
          (''previousClose'', JFloat previousClose), (''timestamp'', timestamp)])))))))))))"

definition finnhub_quote :: "pydict \<Rightarrow> json \<Rightarrow> py_exc + pydict" where
  "finnhub_quote base raw =
     bind_exc (get_float raw ''c'' JNull) (\<lambda>price.
     bind_exc (get_float raw ''dp'' JNull) (\<lambda>changePercent.
     bind_exc (get_float raw ''o'' JNull) (\<lambda>opn.
     bind_exc (get_float raw ''h'' JNull) (\<lambda>high.
     bind_exc (get_float raw ''l'' JNull) (\<lambda>low.
     bind_exc (get_float raw ''pc'' JNull) (\<lambda>previousClose.
     bind_exc (py_get raw ''t'' JNull) (\<lambda>timestamp.
       Inr (base @
         [(''price'', JFloat price), (''changePercent'', JFloat changePercent),
          (''open'', JFloat opn), (''high'', JFloat high), (''low'', JFloat low),
          (''previousClose'', JFloat previousClose), (''timestamp'', timestamp)]))))))))"

definition twelve_quote :: "pydict \<Rightarrow> json \<Rightarrow> py_exc + pydict" where
  "twelve_quote base raw =
     bind_exc (get_float raw ''price'' JNull) (\<lambda>price.
     bind_exc (get_float raw ''percent_change'' JNull) (\<lambda>changePercent.
     bind_exc (get_float raw ''open'' JNull) (\<lambda>opn.
     bind_exc (get_float raw ''high'' JNull) (\<lambda>high.
     bind_exc (get_float raw ''low'' JNull) (\<lambda>low.
     bind_exc (get_float raw ''previous_close'' JNull) (\<lambda>previousClose.
     bind_exc (py_get raw ''timestamp'' JNull) (\<lambda>timestamp.
       Inr (base @
         [(''price'', JFloat price), (''changePercent'', JFloat changePercent),
          (''open'', JFloat opn), (''high'', JFloat high), (''low'', JFloat low),
          (''previousClose'', JFloat previousClose), (''timestamp'', timestamp)]))))))))"

text \<open>\<open>0.0 if prev == 0 else ((close - prev) / prev) * 100\<close>\<close>

definition polygon_change :: "pyfloat \<Rightarrow> pyfloat \<Rightarrow> py_exc + pyfloat" where
  "polygon_change close prev =
     (if is_zero prev then Inr (Fin 0)
      else bind_exc (fdiv (fsub close prev) prev) (\<lambda>d. Inr (fmul d (Fin 100))))"

definition polygon_quote :: "pydict \<Rightarrow> json \<Rightarrow> py_exc + pydict" where
  "polygon_quote base raw =
     bind_exc (py_get raw ''results'' JNull) (\<lambda>results.
     bind_exc (py_index0 (py_or results (JList [JDict []]))) (\<lambda>res0.
     bind_exc (get_float res0 ''c'' JNull) (\<lambda>close.
     bind_exc (get_float res0 ''o'' JNull) (\<lambda>opn.
     bind_exc (get_float res0 ''h'' JNull) (\<lambda>high.
     bind_exc (get_float res0 ''l'' JNull) (\<lambda>low.
     bind_exc (get_float res0 ''c'' JNull) (\<lambda>prev.
     bind_exc (polygon_change close prev) (\<lambda>changePercent.
     bind_exc (py_get res0 ''t'' JNull) (\<lambda>timestamp.
       Inr (base @
         [(''price'', JFloat close), (''changePercent'', JFloat changePercent),
          (''open'', JFloat opn), (''high'', JFloat high), (''low'', JFloat low),
          (''previousClose'', JFloat prev), (''timestamp'', timestamp)]))))))))))"

definition fmp_quote :: "pydict \<Rightarrow> json \<Rightarrow> py_exc + pydict" where
  "fmp_quote base raw =
     bind_exc (py_index0 (py_or raw (JList [JDict []]))) (\<lambda>res0.
     bind_exc (get_float res0 ''price'' JNull) (\<lambda>price.
     bind_exc (py_get res0 ''open'' JNull) (\<lambda>opn.
     bind_exc (py_get res0 ''dayHigh'' JNull) (\<lambda>high.
     bind_exc (py_get res0 ''dayLow'' JNull) (\<lambda>low.
     bind_exc (py_get res0 ''previousClose'' JNull) (\<lambda>previousClose.
     bind_exc (py_get res0 ''timestamp'' JNull) (\<lambda>timestamp.
       Inr (base @
         [(''price'', JFloat price), (''changePercent'', JFloat (Fin 0)),
          (''open'', py_or opn (JInt 0)), (''high'', py_or high (JInt 0)),
          (''low'', py_or low (JInt 0)), (''previousClose'', py_or previousClose (JInt 0)),
          (''timestamp'', py_or timestamp JNull)]))))))))"

text \<open>The \<open>try\<close> block: \<open>Inr (Some q)\<close> when a branch returns \<open>q\<close>, \<open>Inl e\<close> when it
  raises \<open>e\<close>, \<open>Inr None\<close> when no branch is taken and control falls out of the block.\<close>

definition normalize_try :: "pydict \<Rightarrow> string \<Rightarrow> json \<Rightarrow> py_exc + pydict option" where
  "normalize_try base provider raw =
     (if provider = ''alpha_vantage'' then map_sum id Some (alpha_vantage_quote base raw)
      else if provider = ''finnhub'' then map_sum id Some (finnhub_quote base raw)
      else if provider = ''twelve'' then map_sum id Some (twelve_quote base raw)
      else if provider = ''polygon'' then map_sum id Some (polygon_quote base raw)
      else if provider = ''fmp'' then map_sum id Some (fmp_quote base raw)
      else Inr None)"

definition quote_base :: "string \<Rightarrow> string \<Rightarrow> pydict" where
  "quote_base symbol provider = [(''symbol'', JStr (py_upper symbol)), (''provider'', JStr provider)]"

text \<open>The record of the last line of \<open>normalize_quote\<close>.\<close>

definition fallback_quote :: "string \<Rightarrow> string \<Rightarrow> pydict" where
  "fallback_quote symbol provider =
     quote_base symbol provider @ [(''price'', JFloat (Fin 0)), (''changePercent'', JFloat (Fin 0))]"

text \<open>\<open>except Exception: pass\<close> swallows every exception of the block; then, as when
  no branch is taken, the last line returns the fallback record.\<close>

definition normalize_quote :: "string \<Rightarrow> string \<Rightarrow> json \<Rightarrow> pydict" where
  "normalize_quote symbol provider raw =
     (case normalize_try (quote_base symbol provider) provider raw of
        Inr (Some q) \<Rightarrow> q
      | Inr None \<Rightarrow> fallback_quote symbol provider
      | Inl e \<Rightarrow> fallback_quote symbol provider)"

section \<open>\<open>get_quote\<close>\<close>

text \<open>
  The process environment is a map from variable names to values (\<open>os.getenv\<close>). The
  network is a function giving the outcome of a request from the requests issued before
  it; every call of \<open>requests.get\<close> is appended to a log, so that a path issuing no
  request leaves the log as it was.
\<close>

type_synonym environ = "string \<rightharpoonup> string"

type_synonym request = "string \<times> (string \<times> string) list"

text \<open>
  What \<open>requests.get\<close>, \<open>raise_for_status\<close> and \<open>r.json()\<close> come to: the decoded
  body; a \<open>requests.HTTPError\<close> \<open>e\<close>, with the status code of \<open>e.response\<close> when
  \<open>e.response\<close> is true and with \<open>str(e)\<close>; or any other exception, with \<open>str(e)\<close>.
\<close>

datatype net_outcome = NetJson json | NetHTTPError "nat option" string | NetFailure string

type_synonym network = "request list \<Rightarrow> request \<Rightarrow> net_outcome"

datatype http_exception = HTTPException nat string

text \<open>The tail shared by the five branches: issue the request, decode, normalize; the
  two last \<open>except\<close> clauses turn a failure into an \<open>HTTPException\<close>.\<close>

definition fetch_quote ::
  "network \<Rightarrow> request list \<Rightarrow> string \<Rightarrow> string \<Rightarrow> request
     \<Rightarrow> (http_exception + pydict) \<times> request list" where
  "fetch_quote net calls symbol provider req =
     (case net calls req of
        NetJson data \<Rightarrow> Inr (normalize_quote symbol provider data)
      | NetHTTPError st msg \<Rightarrow>
          Inl (HTTPException (case st of Some code \<Rightarrow> code | None \<Rightarrow> 502) msg)
      | NetFailure msg \<Rightarrow> Inl (HTTPException 500 msg),
      calls @ [req])"

text \<open>In each branch \<open>not key\<close> holds when the variable is unset or empty.\<close>

definition get_quote ::
  "environ \<Rightarrow> network \<Rightarrow> request list \<Rightarrow> string \<Rightarrow> string
     \<Rightarrow> (http_exception + pydict) \<times> request list" where
  "get_quote env net calls symbol0 provider0 =
     (let provider = py_lower provider0; symbol = py_upper symbol0 in
      if provider = ''alpha_vantage'' then
        (case env ''ALPHA_VANTAGE_API_KEY'' of
           None \<Rightarrow> (Inl (HTTPException 400 ''ALPHA_VANTAGE_API_KEY not set''), calls)
         | Some key \<Rightarrow>
             if key = [] then (Inl (HTTPException 400 ''ALPHA_VANTAGE_API_KEY not set''), calls)
             else fetch_quote net calls symbol provider
                (''https://www.alphavantage.co/query'',
                 [(''function'', ''GLOBAL_QUOTE''), (''symbol'', symbol),
                  (''apikey'', key)]))
      else if provider = ''finnhub'' then
        (case env ''FINNHUB_API_KEY'' of
           None \<Rightarrow> (Inl (HTTPException 400 ''FINNHUB_API_KEY not set''), calls)
         | Some key \<Rightarrow>
             if key = [] then (Inl (HTTPException 400 ''FINNHUB_API_KEY not set''), calls)
             else fetch_quote net calls symbol provider
                (''https://finnhub.io/api/v1/quote'',
                 [(''symbol'', symbol), (''token'', key)]))
      else if provider = ''twelve'' then
        (case env ''TWELVE_DATA_API_KEY'' of
           None \<Rightarrow> (Inl (HTTPException 400 ''TWELVE_DATA_API_KEY not set''), calls)
         | Some key \<Rightarrow>
             if key = [] then (Inl (HTTPException 400 ''TWELVE_DATA_API_KEY not set''), calls)
             else fetch_quote net calls symbol provider
                (''https://api.twelvedata.com/quote'',
                 [(''symbol'', symbol), (''apikey'', key)]))
      else if provider = ''polygon'' then
        (case env ''POLYGON_API_KEY'' of
           None \<Rightarrow> (Inl (HTTPException 400 ''POLYGON_API_KEY not set''), calls)
         | Some key \<Rightarrow>
             if key = [] then (Inl (HTTPException 400 ''POLYGON_API_KEY not set''), calls)
             else fetch_quote net calls symbol provider
                (''https://api.polygon.io/v2/aggs/ticker/'' @ symbol @ ''/prev'',
                 [(''adjusted'', ''true''), (''apiKey'', key)]))
      else if provider = ''fmp'' then
        (case env ''FMP_API_KEY'' of
           None \<Rightarrow> (Inl (HTTPException 400 ''FMP_API_KEY not set''), calls)
         | Some key \<Rightarrow>
             if key = [] then (Inl (HTTPException 400 ''FMP_API_KEY not set''), calls)
             else fetch_quote net calls symbol provider
                (''https://financialmodelingprep.com/api/v3/quote-short/'' @ symbol,
                 [(''apikey'', key)]))
      else (Inl (HTTPException 400 ''Unsupported provider''), calls))"

section \<open>\<open>get_tickers\<close>\<close>


definition error_item :: "string \<Rightarrow> string \<Rightarrow> string \<Rightarrow> pydict" where
  "error_item s provider detail =
     [(''symbol'', JStr s), (''provider'', JStr provider), (''error'', JStr detail)]"

text \<open>\<open>str(e)\<close> of the \<open>AttributeError\<close> for a function without \<open>__wrapped__\<close>.\<close>

definition no_wrapped_message :: string where
  "no_wrapped_message =
     [CHR 0x27] @ ''function'' @ [CHR 0x27] @ '' object has no attribute ''
       @ [CHR 0x27] @ ''__wrapped__'' @ [CHR 0x27]"

text \<open>
  One turn of the loop. The call goes through the attribute \<open>get_quote.__wrapped__\<close>;
  whether the route decorator leaves that attribute on the handler is the web
  framework's matter, so it is the parameter \<open>wrapped\<close>. Without the attribute the lookup
  raises \<open>AttributeError\<close>, which the last \<open>except\<close> clause turns into an error item and
  no request is issued; with it the call is \<open>get_quote\<close>, and an \<open>HTTPException\<close>
  becomes an error item carrying its detail.
\<close>

definition ticker_item ::
  "bool \<Rightarrow> environ \<Rightarrow> network \<Rightarrow> string \<Rightarrow> request list \<Rightarrow> string
     \<Rightarrow> pydict \<times> request list" where
  "ticker_item wrapped env net provider calls s =
     (if \<not> wrapped
      then (error_item s provider no_wrapped_message, calls)
      else (case get_quote env net calls s provider of
              (Inr q, calls') \<Rightarrow> (q, calls')
            | (Inl (HTTPException st detail), calls') \<Rightarrow> (error_item s provider detail, calls')))"

fun tickers_loop ::
  "bool \<Rightarrow> environ \<Rightarrow> network \<Rightarrow> string \<Rightarrow> pydict list \<Rightarrow> request list \<Rightarrow> string list
     \<Rightarrow> pydict list \<times> request list" where
  "tickers_loop wrapped env net provider out calls [] = (out, calls)"
| "tickers_loop wrapped env net provider out calls (s # syms) =
     (case ticker_item wrapped env net provider calls s of
        (item, calls') \<Rightarrow> tickers_loop wrapped env net provider (out @ [item]) calls' syms)"



text \<open>A network that gives every request the same outcome.\<close>

definition const_network :: "net_outcome \<Rightarrow> network" where
  "const_network r calls req = r"


section \<open>Basic facts\<close>

lemma bind_exc_Inr_iff: "bind_exc m f = Inr y \<longleftrightarrow> (\<exists>x. m = Inr x \<and> f x = Inr y)"
  by (cases m) (simp_all add: bind_exc_def)

lemma bind_exc_Inl_iff:
  "bind_exc m f = Inl e \<longleftrightarrow> (m = Inl e \<or> (\<exists>x. m = Inr x \<and> f x = Inl e))"
  by (cases m) (simp_all add: bind_exc_def)

lemmas strip_defs = py_strip_def py_strip_chars_def strip_where_def py_isspace_def

lemmas parse_defs = float_of_str_def py_lower_def parse_decimal_def digitpart_def is_digit_def
  parse_exponent_def nat_of_digits_def digit_val_def pow10_def round_signed_def signed_zero_def
  signed_inf_def

lemma float_of_str_0: "float_of_str ''0'' = Inr (Fin 0)"
  by (simp add: strip_defs parse_defs)

lemma binary64_round_0: "binary64_round 0 = Fin 0"
  by (simp add: binary64_round_def)

lemma float_of_int_0: "float_of_int 0 = Inr (Fin 0)"
  by (simp add: float_of_int_def binary64_round_0)

lemma get_float_empty: "get_float (JDict []) k dflt = py_float (py_or dflt (JInt 0))"
  by (simp add: get_float_def bind_exc_def)

subsection \<open>The empty payload\<close>

lemma empty_alpha_vantage:
  "alpha_vantage_quote base (JDict []) = Inr (base @
     [(''price'', JFloat (Fin 0)), (''changePercent'', JFloat (Fin 0)),
      (''open'', JFloat (Fin 0)), (''high'', JFloat (Fin 0)), (''low'', JFloat (Fin 0)),
      (''previousClose'', JFloat (Fin 0)), (''timestamp'', JNull)])"
  by (simp add: alpha_vantage_quote_def bind_exc_def get_float_empty py_or_def float_of_int_0
      strip_defs float_of_str_0)

lemma empty_finnhub:
  "finnhub_quote base (JDict []) = Inr (base @
     [(''price'', JFloat (Fin 0)), (''changePercent'', JFloat (Fin 0)),
      (''open'', JFloat (Fin 0)), (''high'', JFloat (Fin 0)), (''low'', JFloat (Fin 0)),
      (''previousClose'', JFloat (Fin 0)), (''timestamp'', JNull)])"
  by (simp add: finnhub_quote_def bind_exc_def get_float_empty py_or_def float_of_int_0)

lemma empty_twelve:
  "twelve_quote base (JDict []) = Inr (base @
     [(''price'', JFloat (Fin 0)), (''changePercent'', JFloat (Fin 0)),
      (''open'', JFloat (Fin 0)), (''high'', JFloat (Fin 0)), (''low'', JFloat (Fin 0)),
      (''previousClose'', JFloat (Fin 0)), (''timestamp'', JNull)])"
  by (simp add: twelve_quote_def bind_exc_def get_float_empty py_or_def float_of_int_0)

lemma empty_polygon:
  "polygon_quote base (JDict []) = Inr (base @
     [(''price'', JFloat (Fin 0)), (''changePercent'', JFloat (Fin 0)),
      (''open'', JFloat (Fin 0)), (''high'', JFloat (Fin 0)), (''low'', JFloat (Fin 0)),
      (''previousClose'', JFloat (Fin 0)), (''timestamp'', JNull)])"
  by (simp add: polygon_quote_def bind_exc_def get_float_empty py_or_def float_of_int_0
      polygon_change_def)

lemma empty_fmp:
  "fmp_quote base (JDict []) = Inr (base @
     [(''price'', JFloat (Fin 0)), (''changePercent'', JFloat (Fin 0)),
      (''open'', JInt 0), (''high'', JInt 0), (''low'', JInt 0),
      (''previousClose'', JInt 0), (''timestamp'', JNull)])"
  by (simp add: fmp_quote_def bind_exc_def get_float_empty py_or_def float_of_int_0)

lemmas empty_quotes = empty_alpha_vantage empty_finnhub empty_twelve empty_polygon empty_fmp

lemma normalize_empty_price:
  "map_of (normalize_quote symbol provider (JDict [])) ''price'' = Some (JFloat (Fin 0))"
  by (simp add: normalize_quote_def normalize_try_def empty_quotes quote_base_def
      fallback_quote_def)

lemma normalize_empty_change:
  "map_of (normalize_quote symbol provider (JDict [])) ''changePercent'' = Some (JFloat (Fin 0))"
  by (simp add: normalize_quote_def normalize_try_def empty_quotes quote_base_def
      fallback_quote_def)

section \<open>The normalizer never fails outward\<close>

text \<open>
  Claim C1. For every symbol, provider and raw payload \<open>normalize_quote\<close> returns a
  record and raises nothing: whenever the \<open>try\<close> block raises, the result is the fallback
  record; the result is always either that record or the record a provider branch built;
  the fallback record is \<open>{symbol, provider, price: 0.0, changePercent: 0.0}\<close>; and for
  every provider the empty payload \<open>{}\<close> gives price 0.0 and changePercent 0.0.
\<close>

theorem normalize_quote_never_raises:
  "(\<forall>e. normalize_try (quote_base symbol provider) provider raw = Inl e \<longrightarrow>
        normalize_quote symbol provider raw = fallback_quote symbol provider)
   \<and> (normalize_quote symbol provider raw = fallback_quote symbol provider
        \<or> normalize_try (quote_base symbol provider) provider raw
            = Inr (Some (normalize_quote symbol provider raw)))
   \<and> fallback_quote symbol provider =
        [(''symbol'', JStr (py_upper symbol)), (''provider'', JStr provider),
         (''price'', JFloat (Fin 0)), (''changePercent'', JFloat (Fin 0))]
   \<and> map_of (normalize_quote symbol provider (JDict [])) ''price'' = Some (JFloat (Fin 0))
   \<and> map_of (normalize_quote symbol provider (JDict [])) ''changePercent''
        = Some (JFloat (Fin 0))"
proof -
  have a: "\<forall>e. normalize_try (quote_base symbol provider) provider raw = Inl e \<longrightarrow>
        normalize_quote symbol provider raw = fallback_quote symbol provider"
    by (simp add: normalize_quote_def)
  have b: "normalize_quote symbol provider raw = fallback_quote symbol provider
        \<or> normalize_try (quote_base symbol provider) provider raw
            = Inr (Some (normalize_quote symbol provider raw))"
    by (simp add: normalize_quote_def split: sum.splits option.splits)
  have c: "fallback_quote symbol provider =
        [(''symbol'', JStr (py_upper symbol)), (''provider'', JStr provider),
         (''price'', JFloat (Fin 0)), (''changePercent'', JFloat (Fin 0))]"
    by (simp add: fallback_quote_def quote_base_def)
  from a b c normalize_empty_price normalize_empty_change show ?thesis by blast
qed

theorem normalize_quote_never_raises_witness:
  "normalize_try (quote_base ''tsla'' ''finnhub'') ''finnhub'' (JDict [(''c'', JStr ''abc'')])
     = Inl ValueError
   \<and> normalize_quote ''tsla'' ''finnhub'' (JDict [(''c'', JStr ''abc'')]) =
        [(''symbol'', JStr ''TSLA''), (''provider'', JStr ''finnhub''),
         (''price'', JFloat (Fin 0)), (''changePercent'', JFloat (Fin 0))]"
proof -
  have h: "normalize_try (quote_base ''tsla'' ''finnhub'') ''finnhub''
             (JDict [(''c'', JStr ''abc'')]) = Inl ValueError"
    by (simp add: normalize_try_def finnhub_quote_def get_float_def bind_exc_def py_or_def
        strip_defs parse_defs)
  from normalize_quote_never_raises [of "''tsla''" "''finnhub''" "JDict [(''c'', JStr ''abc'')]"] h
  show ?thesis by (simp add: py_upper_def)
qed

section \<open>fmp reports no change\<close>

lemma fmp_quote_shape:
  "fmp_quote base raw = Inr q \<Longrightarrow>
   \<exists>price opn high low pc ts. q = base @
     [(''price'', JFloat price), (''changePercent'', JFloat (Fin 0)),
      (''open'', opn), (''high'', high), (''low'', low), (''previousClose'', pc),
      (''timestamp'', ts)]"
  unfolding fmp_quote_def bind_exc_Inr_iff by auto

text \<open>
  Claim C6. For the fmp provider the changePercent of the returned record is 0.0, whatever
  the symbol and the raw payload.
\<close>

theorem fmp_changePercent_zero:
  "map_of (normalize_quote symbol ''fmp'' raw) ''changePercent'' = Some (JFloat (Fin 0))"
proof (cases "fmp_quote (quote_base symbol ''fmp'') raw")
  case (Inl e)
  then show ?thesis
    by (simp add: normalize_quote_def normalize_try_def fallback_quote_def quote_base_def)
next
  case (Inr q)
  from fmp_quote_shape [OF Inr] obtain price opn high low pc ts where
    "q = quote_base symbol ''fmp'' @
         [(''price'', JFloat price), (''changePercent'', JFloat (Fin 0)),
          (''open'', opn), (''high'', high), (''low'', low), (''previousClose'', pc),
          (''timestamp'', ts)]" by blast
  with Inr show ?thesis
    by (simp add: normalize_quote_def normalize_try_def quote_base_def)
qed

theorem fmp_changePercent_zero_witness:
  "map_of (normalize_quote ''tsla'' ''fmp''
             (JList [JDict [(''price'', JStr ''251.5''), (''changesPercentage'', JFloat (Fin 2))]]))
     ''changePercent'' = Some (JFloat (Fin 0))"
  by (rule fmp_changePercent_zero)

section \<open>The polygon branch\<close>

subsection \<open>The guard of the division\<close>

lemma polygon_change_guard: "is_zero prev \<Longrightarrow> polygon_change close prev = Inr (Fin 0)"
  by (simp add: polygon_change_def)

lemma fdiv_nonzero: "\<not> is_zero b \<Longrightarrow> \<exists>y. fdiv a b = Inr y"
  by (simp add: fdiv_def)

lemma polygon_change_returns: "\<exists>y. polygon_change close prev = Inr y"
proof (cases "is_zero prev")
  case True
  then show ?thesis by (simp add: polygon_change_def)
next
  case False
  from fdiv_nonzero [OF False] obtain y where "fdiv (fsub close prev) prev = Inr y" by blast
  with False show ?thesis by (simp add: polygon_change_def bind_exc_def)
qed

lemma polygon_change_same:
  "polygon_change x x =
     Inr (if is_zero x then Fin 0 else if is_finite x then signed_zero (is_neg x) else NaN)"
  by (cases x)
     (simp_all add: polygon_change_def bind_exc_def fsub_def fdiv_def fmul_def round_signed_def
        signed_zero_def signed_inf_def)

lemma polygon_quote_shape:
  "polygon_quote base raw = Inr q \<Longrightarrow>
   \<exists>close opn high low cp ts. polygon_change close close = Inr cp \<and> q = base @
     [(''price'', JFloat close), (''changePercent'', JFloat cp),
      (''open'', JFloat opn), (''high'', JFloat high), (''low'', JFloat low),
      (''previousClose'', JFloat close), (''timestamp'', ts)]"
  unfolding polygon_quote_def bind_exc_Inr_iff by auto

subsection \<open>The exceptions a branch can raise\<close>

lemma py_get_exc: "py_get obj k d = Inl e \<Longrightarrow> e = AttributeError"
  by (cases obj) auto

lemma py_index0_exc: "py_index0 v = Inl e \<Longrightarrow> e \<noteq> ZeroDivisionError"
  by (induction v rule: py_index0.induct) auto

lemma float_of_int_exc: "float_of_int n = Inl e \<Longrightarrow> e = OverflowError"
  by (auto simp: float_of_int_def split: pyfloat.splits)

lemma float_of_str_exc: "float_of_str s = Inl e \<Longrightarrow> e = ValueError"
  by (auto simp: float_of_str_def split: prod.splits option.splits if_splits)

lemma py_float_exc: "py_float v = Inl e \<Longrightarrow> e \<noteq> ZeroDivisionError"
  by (cases v) (auto dest: float_of_int_exc float_of_str_exc)

lemma get_float_exc: "get_float obj k d = Inl e \<Longrightarrow> e \<noteq> ZeroDivisionError"
  by (auto simp: get_float_def bind_exc_Inl_iff dest: py_get_exc py_float_exc)

lemma polygon_quote_no_zero_division: "polygon_quote base raw \<noteq> Inl ZeroDivisionError"
proof
  assume a: "polygon_quote base raw = Inl ZeroDivisionError"
  have r: "\<And>close prev. polygon_change close prev \<noteq> Inl ZeroDivisionError"
    using polygon_change_returns by (metis sum.distinct(1))
  from a show False
    unfolding polygon_quote_def bind_exc_Inl_iff
    using r by (auto dest: py_get_exc py_index0_exc get_float_exc)
qed

text \<open>
  Claim C5. For the polygon provider a previous close that equals 0 (either zero) makes
  changePercent exactly 0.0 and the division is not performed: the guarded expression
  gives 0.0 for every close when the previous close is zero; it returns a value for every
  close and previous close, so it never divides by zero; in the returned record a zero
  previousClose comes with changePercent 0.0; and the \<open>try\<close> block of the polygon
  branch never raises \<open>ZeroDivisionError\<close>.
\<close>

theorem polygon_zero_prev_guard:
  "(\<forall>close prev. is_zero prev \<longrightarrow> polygon_change close prev = Inr (Fin 0))
   \<and> (\<forall>close prev. \<exists>y. polygon_change close prev = Inr y)
   \<and> (\<forall>x. map_of (normalize_quote symbol ''polygon'' raw) ''previousClose'' = Some (JFloat x)
          \<and> is_zero x \<longrightarrow>
        map_of (normalize_quote symbol ''polygon'' raw) ''changePercent'' = Some (JFloat (Fin 0)))
   \<and> normalize_try (quote_base symbol ''polygon'') ''polygon'' raw \<noteq> Inl ZeroDivisionError"
proof -
  have c: "map_of (normalize_quote symbol ''polygon'' raw) ''changePercent'' = Some (JFloat (Fin 0))"
    if h: "map_of (normalize_quote symbol ''polygon'' raw) ''previousClose'' = Some (JFloat x)"
      and z: "is_zero x" for x
  proof (cases "polygon_quote (quote_base symbol ''polygon'') raw")
    case (Inl e)
    with h show ?thesis
      by (simp add: normalize_quote_def normalize_try_def fallback_quote_def quote_base_def)
  next
    case (Inr q)
    from polygon_quote_shape [OF Inr] obtain close opn high low cp ts where
      pc: "polygon_change close close = Inr cp" and
      q: "q = quote_base symbol ''polygon'' @
        [(''price'', JFloat close), (''changePercent'', JFloat cp),
         (''open'', JFloat opn), (''high'', JFloat high), (''low'', JFloat low),
         (''previousClose'', JFloat close), (''timestamp'', ts)]" by blast
    from Inr q h have "close = x"
      by (simp add: normalize_quote_def normalize_try_def quote_base_def)
    with pc z have "cp = Fin 0" by (simp add: polygon_change_def)
    with Inr q show ?thesis
      by (simp add: normalize_quote_def normalize_try_def quote_base_def)
  qed
  have d: "normalize_try (quote_base symbol ''polygon'') ''polygon'' raw \<noteq> Inl ZeroDivisionError"
    using polygon_quote_no_zero_division [of "quote_base symbol ''polygon''" raw]
    by (cases "polygon_quote (quote_base symbol ''polygon'') raw") (auto simp: normalize_try_def)
  from c d polygon_change_guard polygon_change_returns show ?thesis by blast
qed

theorem polygon_zero_prev_guard_witness:
  "map_of (normalize_quote ''tsla'' ''polygon'' (JDict [(''results'', JList [JDict [(''c'', JStr ''-0.0''), (''o'', JFloat (Fin 3))]])]))
      ''previousClose'' = Some (JFloat NegZero)
   \<and> is_zero NegZero
   \<and> map_of (normalize_quote ''tsla'' ''polygon'' (JDict [(''results'', JList [JDict [(''c'', JStr ''-0.0''), (''o'', JFloat (Fin 3))]])]))
      ''changePercent'' = Some (JFloat (Fin 0))"
proof -
  have h: "map_of (normalize_quote ''tsla'' ''polygon'' (JDict [(''results'', JList [JDict [(''c'', JStr ''-0.0''), (''o'', JFloat (Fin 3))]])]))
      ''previousClose'' = Some (JFloat NegZero)"
    by (simp add: normalize_quote_def normalize_try_def polygon_quote_def get_float_def
        bind_exc_def py_or_def quote_base_def polygon_change_def strip_defs parse_defs float_of_int_0)
  from polygon_zero_prev_guard [of "''tsla''" "JDict [(''results'', JList [JDict [(''c'', JStr ''-0.0''), (''o'', JFloat (Fin 3))]])]"] h
  show ?thesis by simp
qed

section \<open>The polygon change is zero or NaN\<close>

text \<open>
  Claim C3 says that for the polygon provider changePercent is 0.0 for every raw payload.
  It is not: a close that coerces to an infinity survives the guard, and
  \<open>inf - inf\<close> is NaN. Here the payload is \<open>{"results": [{"c": "inf"}]}\<close>.
\<close>

theorem polygon_changePercent_counterexample:
  "map_of (normalize_quote ''TSLA'' ''polygon''
             (JDict [(''results'', JList [JDict [(''c'', JStr ''inf'')]])]))
     ''changePercent'' = Some (JFloat NaN)"
  by (simp add: normalize_quote_def normalize_try_def polygon_quote_def get_float_def
      bind_exc_def py_or_def quote_base_def polygon_change_def strip_defs parse_defs
      float_of_int_0 fsub_def fdiv_def fmul_def)

text \<open>
  Claim C3, amended. For the polygon provider the returned record has a float price and a
  float changePercent; when the price is finite (as in every fallback record) the
  changePercent is a zero, so it compares equal to 0.0; when the price is an infinity or
  NaN the changePercent is NaN.
\<close>

theorem polygon_changePercent_zero_or_nan:
  "\<exists>x y. map_of (normalize_quote symbol ''polygon'' raw) ''price'' = Some (JFloat x)
      \<and> map_of (normalize_quote symbol ''polygon'' raw) ''changePercent'' = Some (JFloat y)
      \<and> (is_finite x \<longrightarrow> is_zero y)
      \<and> (\<not> is_finite x \<longrightarrow> y = NaN)"
proof (cases "polygon_quote (quote_base symbol ''polygon'') raw")
  case (Inl e)
  then have "map_of (normalize_quote symbol ''polygon'' raw) ''price'' = Some (JFloat (Fin 0))
      \<and> map_of (normalize_quote symbol ''polygon'' raw) ''changePercent'' = Some (JFloat (Fin 0))"
    by (simp add: normalize_quote_def normalize_try_def fallback_quote_def quote_base_def)
  then show ?thesis by auto
next
  case (Inr q)
  from polygon_quote_shape [OF Inr] obtain close opn high low cp ts where
    pc: "polygon_change close close = Inr cp" and
    q: "q = quote_base symbol ''polygon'' @
      [(''price'', JFloat close), (''changePercent'', JFloat cp),
       (''open'', JFloat opn), (''high'', JFloat high), (''low'', JFloat low),
       (''previousClose'', JFloat close), (''timestamp'', ts)]" by blast
  from pc have cp: "cp = (if is_zero close then Fin 0
      else if is_finite close then signed_zero (is_neg close) else NaN)"
    by (simp add: polygon_change_same)
  from Inr q have "map_of (normalize_quote symbol ''polygon'' raw) ''price'' = Some (JFloat close)
      \<and> map_of (normalize_quote symbol ''polygon'' raw) ''changePercent'' = Some (JFloat cp)"
    by (simp add: normalize_quote_def normalize_try_def quote_base_def)
  moreover from cp have "is_finite close \<longrightarrow> is_zero cp"
    by (simp add: signed_zero_def)
  moreover from cp have "\<not> is_finite close \<longrightarrow> cp = NaN"
    by (cases close) simp_all
  ultimately show ?thesis by blast
qed

theorem polygon_changePercent_zero_or_nan_witness:
  "map_of (normalize_quote ''tsla'' ''polygon''
             (JDict [(''results'', JList [JDict [(''c'', JFloat (Fin (- 5)))]])])) ''price''
     = Some (JFloat (Fin (- 5)))
   \<and> is_finite (Fin (- 5))
   \<and> map_of (normalize_quote ''tsla'' ''polygon''
             (JDict [(''results'', JList [JDict [(''c'', JFloat (Fin (- 5)))]])])) ''changePercent''
     = Some (JFloat NegZero)
   \<and> is_zero NegZero"
proof -
  have p: "map_of (normalize_quote ''tsla'' ''polygon''
             (JDict [(''results'', JList [JDict [(''c'', JFloat (Fin (- 5)))]])])) ''price''
     = Some (JFloat (Fin (- 5)))"
    by (simp add: normalize_quote_def normalize_try_def polygon_quote_def get_float_def
      bind_exc_def py_or_def quote_base_def polygon_change_def float_of_int_0 fsub_def fdiv_def
      fmul_def round_signed_def signed_zero_def)
  have c: "map_of (normalize_quote ''tsla'' ''polygon''
             (JDict [(''results'', JList [JDict [(''c'', JFloat (Fin (- 5)))]])])) ''changePercent''
     = Some (JFloat NegZero)"
    by (simp add: normalize_quote_def normalize_try_def polygon_quote_def get_float_def
      bind_exc_def py_or_def quote_base_def polygon_change_def float_of_int_0 fsub_def fdiv_def
      fmul_def round_signed_def signed_zero_def)
  from polygon_changePercent_zero_or_nan [of "''tsla''"
      "JDict [(''results'', JList [JDict [(''c'', JFloat (Fin (- 5)))]])]"] p c
  show ?thesis by simp
qed

section \<open>The fields of the returned record\<close>














section \<open>The coercion of numeric fields\<close>



lemma get_float_falsy:
  "map_of d k = Some v \<Longrightarrow> \<not> truthy v \<Longrightarrow> get_float (JDict d) k dflt = Inr (Fin 0)"
  by (simp add: get_float_def bind_exc_def py_or_def float_of_int_0)











section \<open>The percent sign of alpha_vantage\<close>







section \<open>The batch\<close>

lemma tickers_loop_acc:
  "tickers_loop wrapped env net provider out calls syms =
     (out @ fst (tickers_loop wrapped env net provider [] calls syms),
      snd (tickers_loop wrapped env net provider [] calls syms))"
proof (induction syms arbitrary: out calls)
  case Nil
  show ?case by simp
next
  case (Cons s syms)
  obtain item calls' where i: "ticker_item wrapped env net provider calls s = (item, calls')"
    by (cases "ticker_item wrapped env net provider calls s")
  from Cons.IH [of "out @ [item]" calls'] Cons.IH [of "[item]" calls'] i
  show ?case by simp
qed

lemma tickers_loop_Cons:
  "fst (tickers_loop wrapped env net provider [] calls (s # syms)) =
     fst (ticker_item wrapped env net provider calls s)
       # fst (tickers_loop wrapped env net provider []
                (snd (ticker_item wrapped env net provider calls s)) syms)"
  "snd (tickers_loop wrapped env net provider [] calls (s # syms)) =
     snd (tickers_loop wrapped env net provider []
            (snd (ticker_item wrapped env net provider calls s)) syms)"
  by (cases "ticker_item wrapped env net provider calls s",
      simp add: tickers_loop_acc [of _ _ _ _ "[_]"])+


lemma tickers_loop_append:
  "fst (tickers_loop wrapped env net provider [] calls (xs @ ys)) =
     fst (tickers_loop wrapped env net provider [] calls xs)
       @ fst (tickers_loop wrapped env net provider []
                (snd (tickers_loop wrapped env net provider [] calls xs)) ys)"
  "snd (tickers_loop wrapped env net provider [] calls (xs @ ys)) =
     snd (tickers_loop wrapped env net provider []
            (snd (tickers_loop wrapped env net provider [] calls xs)) ys)"
  by (induction xs arbitrary: calls) (simp_all add: tickers_loop_Cons del: tickers_loop.simps(2))














section \<open>The tokens of the batch\<close>



section \<open>Refusals before any request\<close>

text \<open>
  Claim C9 says that a provider outside the set of the five identifiers yields the
  unsupported-provider error with no network call. The provider is lower-cased before
  it is compared: \<open>FINNHUB\<close> is not one of the five identifiers, yet with the key
  set the request is issued and a quote comes back.
\<close>

theorem unsupported_provider_counterexample:
  "''FINNHUB'' \<notin> set [''alpha_vantage'', ''finnhub'', ''twelve'', ''polygon'', ''fmp'']
   \<and> get_quote [''FINNHUB_API_KEY'' \<mapsto> ''k''] (const_network (NetJson (JDict []))) []
         ''TSLA'' ''FINNHUB''
       = (Inr [(''symbol'', JStr ''TSLA''), (''provider'', JStr ''finnhub''),
               (''price'', JFloat (Fin 0)), (''changePercent'', JFloat (Fin 0)),
               (''open'', JFloat (Fin 0)), (''high'', JFloat (Fin 0)),
               (''low'', JFloat (Fin 0)), (''previousClose'', JFloat (Fin 0)),
               (''timestamp'', JNull)],
          [(''https://finnhub.io/api/v1/quote'', [(''symbol'', ''TSLA''), (''token'', ''k'')])])"
  by (simp add: get_quote_def Let_def fetch_quote_def const_network_def py_lower_def
      py_upper_def normalize_quote_def normalize_try_def empty_finnhub quote_base_def)

lemma get_quote_unsupported:
  "py_lower provider \<notin> set [''alpha_vantage'', ''finnhub'', ''twelve'', ''polygon'', ''fmp'']
   \<Longrightarrow> get_quote env net calls symbol provider
       = (Inl (HTTPException 400 ''Unsupported provider''), calls)"
  by (simp add: get_quote_def Let_def)

lemma get_quote_missing_key:
  assumes "py_lower provider = p" and "env var = None \<or> env var = Some []"
  shows "p = ''alpha_vantage'' \<Longrightarrow> var = ''ALPHA_VANTAGE_API_KEY'' \<Longrightarrow>
      get_quote env net calls symbol provider
        = (Inl (HTTPException 400 ''ALPHA_VANTAGE_API_KEY not set''), calls)"
    and "p = ''finnhub'' \<Longrightarrow> var = ''FINNHUB_API_KEY'' \<Longrightarrow>
      get_quote env net calls symbol provider
        = (Inl (HTTPException 400 ''FINNHUB_API_KEY not set''), calls)"
    and "p = ''twelve'' \<Longrightarrow> var = ''TWELVE_DATA_API_KEY'' \<Longrightarrow>
      get_quote env net calls symbol provider
        = (Inl (HTTPException 400 ''TWELVE_DATA_API_KEY not set''), calls)"
    and "p = ''polygon'' \<Longrightarrow> var = ''POLYGON_API_KEY'' \<Longrightarrow>
      get_quote env net calls symbol provider
        = (Inl (HTTPException 400 ''POLYGON_API_KEY not set''), calls)"
    and "p = ''fmp'' \<Longrightarrow> var = ''FMP_API_KEY'' \<Longrightarrow>
      get_quote env net calls symbol provider
        = (Inl (HTTPException 400 ''FMP_API_KEY not set''), calls)"
  using assms by (auto simp: get_quote_def Let_def)

text \<open>
  Claim C9, amended. A fetch whose provider, lower-cased, is outside the set of the five
  identifiers yields the 400 error \<open>Unsupported provider\<close>; a fetch whose provider,
  lower-cased, is one of the five and whose credential variable is unset or empty yields
  the 400 error that names the variable (\<open><VARIABLE> not set\<close>). In both cases the log
  of requests is returned as it was: no request has been issued.
\<close>

theorem get_quote_client_errors:
  "(py_lower provider \<notin> set [''alpha_vantage'', ''finnhub'', ''twelve'', ''polygon'', ''fmp'']
      \<longrightarrow> get_quote env net calls symbol provider
           = (Inl (HTTPException 400 ''Unsupported provider''), calls))
   \<and> (\<forall>(p, var) \<in> set [(''alpha_vantage'', ''ALPHA_VANTAGE_API_KEY''),
                          (''finnhub'', ''FINNHUB_API_KEY''),
                          (''twelve'', ''TWELVE_DATA_API_KEY''),
                          (''polygon'', ''POLYGON_API_KEY''),
                          (''fmp'', ''FMP_API_KEY'')].
        py_lower provider = p \<and> (env var = None \<or> env var = Some []) \<longrightarrow>
          get_quote env net calls symbol provider
            = (Inl (HTTPException 400 (var @ '' not set'')), calls))"
proof -
  have u: "py_lower provider \<notin> set [''alpha_vantage'', ''finnhub'', ''twelve'', ''polygon'', ''fmp'']
      \<longrightarrow> get_quote env net calls symbol provider
           = (Inl (HTTPException 400 ''Unsupported provider''), calls)"
    using get_quote_unsupported by blast
  have m: "py_lower provider = p \<and> (env var = None \<or> env var = Some []) \<longrightarrow>
          get_quote env net calls symbol provider
            = (Inl (HTTPException 400 (var @ '' not set'')), calls)"
    if "(p = ''alpha_vantage'' \<and> var = ''ALPHA_VANTAGE_API_KEY'')
      \<or> (p = ''finnhub'' \<and> var = ''FINNHUB_API_KEY'')
      \<or> (p = ''twelve'' \<and> var = ''TWELVE_DATA_API_KEY'')
      \<or> (p = ''polygon'' \<and> var = ''POLYGON_API_KEY'')
      \<or> (p = ''fmp'' \<and> var = ''FMP_API_KEY'')" for p var
  proof
    assume "py_lower provider = p \<and> (env var = None \<or> env var = Some [])"
    then have a: "py_lower provider = p" "env var = None \<or> env var = Some []" by blast+
    from that show "get_quote env net calls symbol provider
            = (Inl (HTTPException 400 (var @ '' not set'')), calls)"
    proof (elim disjE conjE)
      assume "p = ''alpha_vantage''" "var = ''ALPHA_VANTAGE_API_KEY''"
      from get_quote_missing_key(1) [where env = env and var = var, OF a this] this(2) show ?thesis by simp
    next
      assume "p = ''finnhub''" "var = ''FINNHUB_API_KEY''"
      from get_quote_missing_key(2) [where env = env and var = var, OF a this] this(2) show ?thesis by simp
    next
      assume "p = ''twelve''" "var = ''TWELVE_DATA_API_KEY''"
      from get_quote_missing_key(3) [where env = env and var = var, OF a this] this(2) show ?thesis by simp
    next
      assume "p = ''polygon''" "var = ''POLYGON_API_KEY''"
      from get_quote_missing_key(4) [where env = env and var = var, OF a this] this(2) show ?thesis by simp
    next
      assume "p = ''fmp''" "var = ''FMP_API_KEY''"
      from get_quote_missing_key(5) [where env = env and var = var, OF a this] this(2) show ?thesis by simp
    qed
  qed
  have b: "\<forall>(p, var) \<in> set [(''alpha_vantage'', ''ALPHA_VANTAGE_API_KEY''),
                          (''finnhub'', ''FINNHUB_API_KEY''),
                          (''twelve'', ''TWELVE_DATA_API_KEY''),
                          (''polygon'', ''POLYGON_API_KEY''),
                          (''fmp'', ''FMP_API_KEY'')].
        py_lower provider = p \<and> (env var = None \<or> env var = Some []) \<longrightarrow>
          get_quote env net calls symbol provider
            = (Inl (HTTPException 400 (var @ '' not set'')), calls)"
    unfolding list.set ball_simps prod.case
    by (intro conjI m) simp_all
  from u b show ?thesis by (rule conjI)
qed

theorem get_quote_client_errors_witness:
  "py_lower ''Unknown'' \<notin> set [''alpha_vantage'', ''finnhub'', ''twelve'', ''polygon'', ''fmp'']
   \<and> get_quote Map.empty (const_network (NetJson (JDict []))) [] ''tsla'' ''Unknown''
       = (Inl (HTTPException 400 ''Unsupported provider''), [])
   \<and> get_quote Map.empty (const_network (NetJson (JDict []))) [] ''tsla'' ''Polygon''
       = (Inl (HTTPException 400 ''POLYGON_API_KEY not set''), [])"
proof -
  have u: "py_lower ''Unknown'' \<notin> set [''alpha_vantage'', ''finnhub'', ''twelve'', ''polygon'', ''fmp'']"
    by (simp add: py_lower_def)
  have l: "py_lower ''Polygon'' = ''polygon''"
    by (simp add: py_lower_def)
  from get_quote_client_errors [of "''Unknown''" Map.empty
      "const_network (NetJson (JDict []))" "[]" "''tsla''"] u
  have a: "get_quote Map.empty (const_network (NetJson (JDict []))) [] ''tsla'' ''Unknown''
       = (Inl (HTTPException 400 ''Unsupported provider''), [])" by blast
  from get_quote_client_errors [of "''Polygon''" Map.empty
      "const_network (NetJson (JDict []))" "[]" "''tsla''"] l
  have b: "get_quote Map.empty (const_network (NetJson (JDict []))) [] ''tsla'' ''Polygon''
       = (Inl (HTTPException 400 ''POLYGON_API_KEY not set''), [])" by simp
  from u a b show ?thesis by (intro conjI)
qed

end
